theory Spec2Isabelle
  imports Main
begin

section \<open>Values, panics and the library collaborators\<close>

text \<open>
  The provider in \<^verbatim>\<open>helm/provider.go\<close> reads its configuration through the host
  SDK's \<^verbatim>\<open>schema.ResourceData\<close>, whose accessors return \<^verbatim>\<open>interface{}\<close>
  values. The dynamic values that occur are strings, booleans and \<^verbatim>\<open>nil\<close>.
  A failed type assertion \<^verbatim>\<open>v.(string)\<close> and a write through a nil pointer both
  panic; a panic is the \<open>Inl\<close> branch of every result below.
\<close>

datatype val = VNil | VBool bool | VString string

datatype panic = NilPointerDereference | InterfaceConversion

datatype ValueType = TypeBool | TypeString

text \<open>
  \<^verbatim>\<open>genericclioptions.ConfigFlags\<close>: every field is a pointer, \<open>None\<close> is nil.
  Only the fields the provider touches (and \<open>Password\<close>, which it never writes) are kept.
\<close>

record ConfigFlags =
  KubeConfig :: "string option"
  ClusterName :: "string option"
  Context :: "string option"
  Namespace :: "string option"
  CertFile :: "string option"
  KeyFile :: "string option"
  CAFile :: "string option"
  BearerToken :: "string option"
  Username :: "string option"
  Password :: "string option"
  Insecure :: "bool option"

text \<open>
  The functions of imported packages that the source calls are parameters of the model,
  collected in one record: \<^verbatim>\<open>os.Getenv\<close> (the empty string when the variable is
  unset), \<^verbatim>\<open>homedir.Expand\<close> (\<open>Inl\<close> carries the error's message),
  \<^verbatim>\<open>helmpath.DataPath\<close>, \<^verbatim>\<open>helmpath.ConfigPath\<close>, \<^verbatim>\<open>helmpath.CachePath\<close>,
  the value of \<^verbatim>\<open>genericclioptions.NewConfigFlags(true)\<close>, and the Unicode branch
  of \<^verbatim>\<open>strings.ToLower\<close> (taken for a string with a byte outside ASCII).
\<close>

record lib =
  Getenv :: "string \<Rightarrow> string"
  Expand :: "string \<Rightarrow> string + string"
  DataPath :: "string \<Rightarrow> string"
  ConfigPath :: "string \<Rightarrow> string"
  CachePath :: "string \<Rightarrow> string"
  NewConfigFlags :: ConfigFlags
  MapUnicodeToLower :: "string \<Rightarrow> string"

section \<open>Schema\<close>

text \<open>
  A \<^verbatim>\<open>schema.Schema\<close> entry: its \<open>Type\<close> and its \<open>DefaultFunc\<close>, a closure that
  reads the process environment when it is called (\<open>None\<close> is a nil \<open>DefaultFunc\<close>).
  Every entry of the source is \<^verbatim>\<open>Optional\<close>; descriptions are documentation.
\<close>

record Schema =
  Type :: ValueType
  DefaultFunc :: "(lib \<Rightarrow> val) option"

text \<open>
  Modelled from the spec: \<^verbatim>\<open>schema.EnvDefaultFunc\<close> and
  \<^verbatim>\<open>schema.MultiEnvDefaultFunc\<close> belong to the host SDK, not to the source tree.
  The environment variable overrides the hard-coded default; of two accepted variable
  names the first one present wins. A variable is present when \<^verbatim>\<open>os.Getenv\<close>
  returns a non-empty string, and its value is returned as that string, whatever the
  type of the field.
\<close>

definition EnvDefaultFunc :: "string \<Rightarrow> val \<Rightarrow> lib \<Rightarrow> val" where
  "EnvDefaultFunc k dv L = (let v = Getenv L k in if v \<noteq> [] then VString v else dv)"

fun MultiEnvDefaultFunc :: "string list \<Rightarrow> val \<Rightarrow> lib \<Rightarrow> val" where
  "MultiEnvDefaultFunc [] dv L = dv"
| "MultiEnvDefaultFunc (k # ks) dv L =
     (let v = Getenv L k in if v \<noteq> [] then VString v else MultiEnvDefaultFunc ks dv L)"

text \<open>
  The scalar entries of the schema returned by \<^verbatim>\<open>Provider()\<close>, in source order. The
  entry \<^verbatim>\<open>kubernetes\<close> (a list of at most one \<open>kubernetesResource\<close>) is the prefix
  branch of \<open>addrToSchema\<close> below. The \<^verbatim>\<open>ValidateFunc\<close> of \<^verbatim>\<open>helm_driver\<close> is
  \<open>helm_driver_ValidateFunc\<close>.
\<close>

definition Provider :: "(string \<times> Schema) list" where
  "Provider =
    [(''debug'',
        \<lparr>Type = TypeBool, DefaultFunc = Some (EnvDefaultFunc ''HELM_DEBUG'' (VBool False))\<rparr>),
     (''plugins_path'',
        \<lparr>Type = TypeString,
         DefaultFunc = Some (\<lambda>L. EnvDefaultFunc ''HELM_PLUGINS'' (VString (DataPath L ''plugins'')) L)\<rparr>),
     (''registry_config_path'',
        \<lparr>Type = TypeString,
         DefaultFunc = Some (\<lambda>L. EnvDefaultFunc ''HELM_REGISTRY_CONFIG''
                                  (VString (ConfigPath L ''registry.json'')) L)\<rparr>),
     (''repository_config_path'',
        \<lparr>Type = TypeString,
         DefaultFunc = Some (\<lambda>L. EnvDefaultFunc ''HELM_REPOSITORY_CONFIG''
                                  (VString (ConfigPath L ''repositories.yaml'')) L)\<rparr>),
     (''repository_cache'',
        \<lparr>Type = TypeString,
         DefaultFunc = Some (\<lambda>L. EnvDefaultFunc ''HELM_REPOSITORY_CACHE''
                                  (VString (CachePath L ''repository'')) L)\<rparr>),
     (''helm_driver'',
        \<lparr>Type = TypeString, DefaultFunc = Some (EnvDefaultFunc ''HELM_DRIVER'' (VString ''secret''))\<rparr>),
     (''helm_namespace'',
        \<lparr>Type = TypeString,
         DefaultFunc = Some (EnvDefaultFunc ''HELM_NAMESPACE'' (VString ''default''))\<rparr>)]"

definition kubernetesResource :: "(string \<times> Schema) list" where
  "kubernetesResource =
    [(''host'',
        \<lparr>Type = TypeString, DefaultFunc = Some (EnvDefaultFunc ''KUBE_HOST'' (VString ''''))\<rparr>),
     (''username'',
        \<lparr>Type = TypeString, DefaultFunc = Some (EnvDefaultFunc ''KUBE_USER'' (VString ''''))\<rparr>),
     (''password'',
        \<lparr>Type = TypeString, DefaultFunc = Some (EnvDefaultFunc ''KUBE_PASSWORD'' (VString ''''))\<rparr>),
     (''token'',
        \<lparr>Type = TypeString,
         DefaultFunc = Some (EnvDefaultFunc ''KUBE_BEARER_TOKEN'' (VString ''''))\<rparr>),
     (''insecure'',
        \<lparr>Type = TypeBool, DefaultFunc = Some (EnvDefaultFunc ''KUBE_INSECURE'' (VBool False))\<rparr>),
     (''client_certificate'',
        \<lparr>Type = TypeString,
         DefaultFunc = Some (EnvDefaultFunc ''KUBE_CLIENT_CERT_DATA'' (VString ''''))\<rparr>),
     (''client_key'',
        \<lparr>Type = TypeString,
         DefaultFunc = Some (EnvDefaultFunc ''KUBE_CLIENT_KEY_DATA'' (VString ''''))\<rparr>),
     (''cluster_ca_certificate'',
        \<lparr>Type = TypeString,
         DefaultFunc = Some (EnvDefaultFunc ''KUBE_CLUSTER_CA_CERT_DATA'' (VString ''''))\<rparr>),
     (''config_path'',
        \<lparr>Type = TypeString,
         DefaultFunc = Some (MultiEnvDefaultFunc [''KUBE_CONFIG'', ''KUBECONFIG'']
                               (VString ''~/.kube/config''))\<rparr>),
     (''config_context'',
        \<lparr>Type = TypeString, DefaultFunc = Some (EnvDefaultFunc ''KUBE_CTX'' (VString ''''))\<rparr>),
     (''in_cluster'',
        \<lparr>Type = TypeBool, DefaultFunc = None\<rparr>),
     (''load_config_file'',
        \<lparr>Type = TypeBool,
         DefaultFunc = Some (EnvDefaultFunc ''KUBE_LOAD_CONFIG_FILE'' (VBool True))\<rparr>)]"

definition k8sPrefix :: string where
  "k8sPrefix = ''kubernetes.0.''"

section \<open>The accessors of the resource data\<close>

text \<open>
  The \<^verbatim>\<open>schema.ResourceData\<close> handed to the provider: for each address the value
  that is set there, if any. A value is stored with the type of its field, so a field
  of \<open>Type\<close> \<open>TypeString\<close> is read from \<open>strs\<close> and one of \<open>TypeBool\<close> from \<open>bools\<close>.
\<close>

record ResourceData =
  strs :: "string \<rightharpoonup> string"
  bools :: "string \<rightharpoonup> bool"

definition addrToSchema :: "string \<Rightarrow> Schema option" where
  "addrToSchema key =
     (case map_of Provider key of
        Some s \<Rightarrow> Some s
      | None \<Rightarrow>
          if take (length k8sPrefix) key = k8sPrefix
          then map_of kubernetesResource (drop (length k8sPrefix) key)
          else None)"

text \<open>
  Modelled from the spec: the accessors \<^verbatim>\<open>GetOk\<close>, \<^verbatim>\<open>GetOkExists\<close> and \<^verbatim>\<open>Get\<close>
  of the host SDK. \<^verbatim>\<open>GetOk\<close> tests presence by truthiness: it answers \<open>False\<close> for a
  field that is unset and for one that holds the zero value of its type.
  \<^verbatim>\<open>GetOkExists\<close> is the explicit existence check: it answers \<open>True\<close> for every
  field that is set, zero or not. An unset field reads as the zero value of its type.
  None of them calls a \<open>DefaultFunc\<close>.
\<close>

definition getRaw :: "ResourceData \<Rightarrow> string \<Rightarrow> val \<times> bool" where
  "getRaw d key =
     (case addrToSchema key of
        None \<Rightarrow> (VNil, False)
      | Some s \<Rightarrow>
          (case Type s of
             TypeString \<Rightarrow>
               (case strs d key of Some v \<Rightarrow> (VString v, True) | None \<Rightarrow> (VString [], False))
           | TypeBool \<Rightarrow>
               (case bools d key of Some b \<Rightarrow> (VBool b, True) | None \<Rightarrow> (VBool False, False))))"

definition isZero :: "val \<Rightarrow> bool" where
  "isZero v = (case v of VNil \<Rightarrow> True | VBool b \<Rightarrow> \<not> b | VString s \<Rightarrow> s = [])"

definition GetOk :: "ResourceData \<Rightarrow> string \<Rightarrow> val \<times> bool" where
  "GetOk d key = (let (v, exists) = getRaw d key in (v, exists \<and> \<not> isZero v))"

definition GetOkExists :: "ResourceData \<Rightarrow> string \<Rightarrow> val \<times> bool" where
  "GetOkExists d key = getRaw d key"

definition Get :: "ResourceData \<Rightarrow> string \<Rightarrow> val" where
  "Get d key = fst (GetOk d key)"

text \<open>The type assertions \<^verbatim>\<open>v.(string)\<close> and \<^verbatim>\<open>v.(bool)\<close>.\<close>

definition assertString :: "val \<Rightarrow> panic + string" where
  "assertString v = (case v of VString s \<Rightarrow> Inr s | _ \<Rightarrow> Inl InterfaceConversion)"

definition assertBool :: "val \<Rightarrow> panic + bool" where
  "assertBool v = (case v of VBool b \<Rightarrow> Inr b | _ \<Rightarrow> Inl InterfaceConversion)"

section \<open>k8sGetOk and k8sGet\<close>

text \<open>
  \<^verbatim>\<open>k8sGetOk\<close> (lines 252 to 275). A key that \<open>kubernetesResource\<close> does not have
  gives a nil \<^verbatim>\<open>*schema.Schema\<close>, and reading its \<open>DefaultFunc\<close> panics; the
  conjunction \<^verbatim>\<open>!ok && schema.DefaultFunc != nil\<close> reads it only when \<open>ok\<close> is false.
\<close>

definition k8sGetOk :: "lib \<Rightarrow> ResourceData \<Rightarrow> string \<Rightarrow> panic + (val \<times> bool)" where
  "k8sGetOk L d key =
     (let (value, ok) = GetOk d (k8sPrefix @ key);
          (value, ok) = (case value of
                           VBool _ \<Rightarrow> GetOkExists d (k8sPrefix @ key)
                         | _ \<Rightarrow> (value, ok))
      in if ok then Inr (value, ok)
         else (case map_of kubernetesResource key of
                 None \<Rightarrow> Inl NilPointerDereference
               | Some schema \<Rightarrow>
                   (case DefaultFunc schema of
                      None \<Rightarrow> Inr (value, ok)
                    | Some f \<Rightarrow>
                        (let value = f L
                         in Inr (value,
                                 (case value of
                                    VString v \<Rightarrow> length v \<noteq> 0
                                  | VBool v \<Rightarrow> v
                                  | VNil \<Rightarrow> ok))))))"

definition k8sGet :: "lib \<Rightarrow> ResourceData \<Rightarrow> string \<Rightarrow> panic + val" where
  "k8sGet L d key = (case k8sGetOk L d key of Inl p \<Rightarrow> Inl p | Inr (value, _) \<Rightarrow> Inr value)"

section \<open>Sequencing\<close>

text \<open>A panic ends the run: the steps after it are not taken.\<close>

definition andThen :: "panic + 'a \<Rightarrow> ('a \<Rightarrow> panic + 'b) \<Rightarrow> panic + 'b" where
  "andThen r f = (case r of Inl p \<Rightarrow> Inl p | Inr x \<Rightarrow> f x)"

section \<open>The validation function of helm_driver\<close>

text \<open>
  \<^verbatim>\<open>strings.ToLower\<close>: a string of ASCII bytes only has its letters \<^verbatim>\<open>A\<close> to
  \<^verbatim>\<open>Z\<close> moved by \<^verbatim>\<open>'a' - 'A'\<close>; any other string is mapped rune by rune with
  \<^verbatim>\<open>unicode.ToLower\<close>, which is the parameter \<open>MapUnicodeToLower\<close>.
\<close>

definition isASCII :: "char \<Rightarrow> bool" where
  "isASCII c = ((of_char c :: nat) < 128)"

definition lowerASCII :: "char \<Rightarrow> char" where
  "lowerASCII c =
     (let n = (of_char c :: nat) in if 65 \<le> n \<and> n \<le> 90 then char_of (n + 32) else c)"

definition ToLower :: "lib \<Rightarrow> string \<Rightarrow> string" where
  "ToLower L s = (if list_all isASCII s then map lowerASCII s else MapUnicodeToLower L s)"

definition drivers :: "string list" where
  "drivers = [''configmap'', ''secret'', ''memory'']"

text \<open>The loop \<^verbatim>\<open>for _, d := range drivers { if d == v { return } }\<close>: whether it returns.\<close>

fun rangeDrivers :: "string list \<Rightarrow> string \<Rightarrow> bool" where
  "rangeDrivers [] v = False"
| "rangeDrivers (d # ds) v = (if d = v then True else rangeDrivers ds v)"

text \<open>
  The \<^verbatim>\<open>ValidateFunc\<close> of \<^verbatim>\<open>helm_driver\<close> (lines 72 to 88). It returns the
  warnings and the errors, an error being its message.
\<close>

definition helm_driver_ValidateFunc ::
  "lib \<Rightarrow> val \<Rightarrow> string \<Rightarrow> panic + (string list \<times> string list)" where
  "helm_driver_ValidateFunc L val key =
     andThen (assertString val) (\<lambda>s.
       let v = ToLower L s
       in if rangeDrivers drivers v then Inr ([], [])
          else Inr ([], [] @ [v @ '' must be a valid storage driver'']))"

section \<open>Meta and the construction of the settings\<close>

text \<open>The fields of \<^verbatim>\<open>cli.EnvSettings\<close> that the provider sets.\<close>

record EnvSettings =
  Debug :: bool
  PluginsDirectory :: string
  RegistryConfig :: string
  RepositoryConfig :: string
  RepositoryCache :: string

text \<open>
  \<^verbatim>\<open>Meta\<close> (lines 23 to 31). The two pointers are options; the embedded
  \<^verbatim>\<open>sync.Mutex\<close> has no part in a run of one caller and is left out.
\<close>

record Meta =
  data :: ResourceData
  Settings :: "EnvSettings option"
  ConfigFlags :: "ConfigFlags option"
  HelmDriver :: string

text \<open>
  \<^verbatim>\<open>debug\<close> (lines 366 to 368): the line handed to \<^verbatim>\<open>log.Printf\<close>, given the
  message that \<^verbatim>\<open>fmt.Sprintf\<close> has formatted.
\<close>

definition debug :: "string \<Rightarrow> string" where
  "debug msg = ''[DEBUG] '' @ msg"

text \<open>
  The shape \<^verbatim>\<open>if v, ok := d.GetOk(key); ok { x.F = v.(string) }\<close> of
  \<^verbatim>\<open>buildSettings\<close>, for a field \<open>F\<close> of a value \<open>x\<close>.
\<close>

definition ifGetOk :: "ResourceData \<Rightarrow> string \<Rightarrow> (string \<Rightarrow> 'a \<Rightarrow> 'a) \<Rightarrow> 'a \<Rightarrow> panic + 'a" where
  "ifGetOk d key store x =
     (let (v, ok) = GetOk d key
      in if ok then andThen (assertString v) (\<lambda>s. Inr (store s x)) else Inr x)"

text \<open>
  The shape \<^verbatim>\<open>if v, ok := k8sGetOk(d, key); ok { v := v.(T); p.F = &v }\<close> of
  \<^verbatim>\<open>getK8sConfig\<close>. When the target is \<^verbatim>\<open>cf\<close> the pointer is the local, fresh
  \<open>ConfigFlags\<close>; when it is \<^verbatim>\<open>m.ConfigFlags\<close> the pointer is read from \<open>m\<close> and
  may be nil. The assertion comes before the write.
\<close>

definition ifK8sGetOk_cf ::
  "lib \<Rightarrow> ResourceData \<Rightarrow> string \<Rightarrow> (string \<Rightarrow> ConfigFlags \<Rightarrow> ConfigFlags) \<Rightarrow> ConfigFlags
     \<Rightarrow> panic + ConfigFlags" where
  "ifK8sGetOk_cf L d key store cf =
     andThen (k8sGetOk L d key) (\<lambda>(v, ok).
       if ok then andThen (assertString v) (\<lambda>s. Inr (store s cf)) else Inr cf)"

definition ifK8sGetOk_m ::
  "lib \<Rightarrow> ResourceData \<Rightarrow> string \<Rightarrow> (val \<Rightarrow> panic + 'a) \<Rightarrow> ('a \<Rightarrow> ConfigFlags \<Rightarrow> ConfigFlags) \<Rightarrow> Meta
     \<Rightarrow> panic + Meta" where
  "ifK8sGetOk_m L d key assert store m =
     andThen (k8sGetOk L d key) (\<lambda>(v, ok).
       if ok
       then andThen (assert v) (\<lambda>x.
              case ConfigFlags m of
                None \<Rightarrow> Inl NilPointerDereference
              | Some c \<Rightarrow> Inr (m\<lparr>ConfigFlags := Some (store x c)\<rparr>))
       else Inr m)"

text \<open>
  \<^verbatim>\<open>getK8sConfig\<close>, lines 286 to 297: the kubeconfig path. \<open>Inr (Inl e)\<close> is the
  early \<^verbatim>\<open>return err\<close>, taken after the debug line.
\<close>

definition getK8sConfig_path :: "lib \<Rightarrow> ResourceData \<Rightarrow> ConfigFlags \<Rightarrow> panic + (string + ConfigFlags)" where
  "getK8sConfig_path L d cf =
     andThen (andThen (k8sGet L d ''in_cluster'') assertBool) (\<lambda>in_cluster.
     andThen (if \<not> in_cluster then andThen (k8sGet L d ''load_config_file'') assertBool
              else Inr False) (\<lambda>consult.
       if consult
       then andThen (k8sGetOk L d ''config_path'') (\<lambda>(v, ok).
              if ok
              then andThen (assertString v) (\<lambda>v.
                     case Expand L v of
                       Inl err \<Rightarrow> Inr (Inl err)
                     | Inr expanded \<Rightarrow> Inr (Inr (cf\<lparr>KubeConfig := Some expanded\<rparr>)))
              else Inr (Inr cf))
       else Inr (Inr cf)))"

text \<open>Lines 309 to 347: the eight fields written through \<^verbatim>\<open>m.ConfigFlags\<close>.\<close>

definition getK8sConfig_credentials :: "lib \<Rightarrow> ResourceData \<Rightarrow> Meta \<Rightarrow> panic + Meta" where
  "getK8sConfig_credentials L d m =
     andThen (ifK8sGetOk_m L d ''username'' assertString (\<lambda>v c. c\<lparr>Username := Some v\<rparr>) m) (\<lambda>m.
     andThen (ifK8sGetOk_m L d ''password'' assertString (\<lambda>v c. c\<lparr>Username := Some v\<rparr>) m) (\<lambda>m.
     andThen (ifK8sGetOk_m L d ''token'' assertString (\<lambda>v c. c\<lparr>BearerToken := Some v\<rparr>) m) (\<lambda>m.
     andThen (ifK8sGetOk_m L d ''insecure'' assertBool (\<lambda>v c. c\<lparr>Insecure := Some v\<rparr>) m) (\<lambda>m.
     andThen (ifK8sGetOk_m L d ''client_certificate'' assertString (\<lambda>v c. c\<lparr>CertFile := Some v\<rparr>) m) (\<lambda>m.
     andThen (ifK8sGetOk_m L d ''client_key'' assertString (\<lambda>v c. c\<lparr>KeyFile := Some v\<rparr>) m) (\<lambda>m.
     andThen (ifK8sGetOk_m L d ''cluster_ca_certificate'' assertString (\<lambda>v c. c\<lparr>CAFile := Some v\<rparr>) m) (\<lambda>m.
     ifK8sGetOk_m L d ''host'' assertString (\<lambda>v c. c\<lparr>ClusterName := Some v\<rparr>) m)))))))"

text \<open>
  \<^verbatim>\<open>getK8sConfig\<close> (lines 282 to 351) returns its error, the \<open>Meta\<close> it has changed
  and the debug lines it has logged.
\<close>

definition getK8sConfig :: "lib \<Rightarrow> Meta \<Rightarrow> ResourceData \<Rightarrow> panic + (string option \<times> Meta \<times> string list)" where
  "getK8sConfig L m d =
     (let cf = NewConfigFlags L
      in andThen (getK8sConfig_path L d cf) (\<lambda>r.
           case r of
             Inl err \<Rightarrow> Inr (Some err, m, [debug (''Error expanding path '' @ err)])
           | Inr cf \<Rightarrow>
               andThen (ifK8sGetOk_cf L d ''config_context'' (\<lambda>v c. c\<lparr>Context := Some v\<rparr>) cf) (\<lambda>cf.
               andThen (ifGetOk d ''helm_namespace'' (\<lambda>v c. c\<lparr>Namespace := Some v\<rparr>) cf) (\<lambda>cf.
               andThen (getK8sConfig_credentials L d m) (\<lambda>m.
                 Inr (None, m\<lparr>ConfigFlags := Some cf\<rparr>, []))))))"

text \<open>
  \<^verbatim>\<open>buildSettings\<close> (lines 218 to 248). Line 245 calls \<^verbatim>\<open>m.getK8sConfig(d)\<close> as a
  statement: the error it returns is dropped, and line 247 returns nil.
\<close>

definition buildSettings :: "lib \<Rightarrow> Meta \<Rightarrow> ResourceData \<Rightarrow> panic + (string option \<times> Meta \<times> string list)" where
  "buildSettings L m d =
     andThen (assertBool (Get d ''debug'')) (\<lambda>dbg.
     andThen (ifGetOk d ''plugins_path'' (\<lambda>v s. s\<lparr>PluginsDirectory := v\<rparr>)
                \<lparr>Debug = dbg, PluginsDirectory = [], RegistryConfig = [],
                 RepositoryConfig = [], RepositoryCache = []\<rparr>) (\<lambda>settings.
     andThen (ifGetOk d ''registry_config_path'' (\<lambda>v s. s\<lparr>RegistryConfig := v\<rparr>) settings) (\<lambda>settings.
     andThen (ifGetOk d ''repository_config_path'' (\<lambda>v s. s\<lparr>RepositoryConfig := v\<rparr>) settings) (\<lambda>settings.
     andThen (ifGetOk d ''repository_cache'' (\<lambda>v s. s\<lparr>RepositoryCache := v\<rparr>) settings) (\<lambda>settings.
     andThen (ifGetOk d ''helm_driver'' (\<lambda>v m. m\<lparr>HelmDriver := v\<rparr>) m) (\<lambda>m.
     andThen (getK8sConfig L (m\<lparr>Settings := Some settings\<rparr>) d) (\<lambda>(_, m, logged).
       Inr (None, m, logged))))))))"

text \<open>
  \<^verbatim>\<open>providerConfigure\<close> (lines 207 to 216) returns \<^verbatim>\<open>(nil, err)\<close> or
  \<^verbatim>\<open>(m, nil)\<close>, here with the debug lines logged on the way.
\<close>

definition providerConfigure ::
  "lib \<Rightarrow> ResourceData \<Rightarrow> string \<Rightarrow> panic + ((Meta option \<times> string option) \<times> string list)" where
  "providerConfigure L d terraformVersion =
     (let m = \<lparr>data = d, Settings = None, ConfigFlags = None, HelmDriver = []\<rparr>
      in andThen (buildSettings L m (data m)) (\<lambda>(err, m, logged).
           case err of
             Some e \<Rightarrow> Inr ((None, Some e), logged)
           | None \<Rightarrow> Inr ((Some m, None), logged)))"

section \<open>GetHelmConfiguration\<close>

text \<open>
  \<^verbatim>\<open>GetHelmConfiguration\<close> (lines 354 to 364). \<^verbatim>\<open>action.Configuration\<close> and its
  \<^verbatim>\<open>Init\<close> belong to the Helm library: \<open>new\<close> is the zero configuration that
  \<^verbatim>\<open>new(action.Configuration)\<close> allocates, and \<open>Init\<close> takes it, the three arguments
  and the state \<open>w\<close> of everything it talks to, and returns its error, the configuration
  it has filled and the state it leaves. \<^verbatim>\<open>m.Lock()\<close> and the deferred
  \<^verbatim>\<open>m.Unlock()\<close> bracket the body.
\<close>

definition GetHelmConfiguration ::
  "'c \<Rightarrow> ('c \<Rightarrow> ConfigFlags option \<Rightarrow> string \<Rightarrow> string \<Rightarrow> 'w \<Rightarrow> string option \<times> 'c \<times> 'w)
     \<Rightarrow> Meta \<Rightarrow> string \<Rightarrow> 'w \<Rightarrow> ('c option \<times> string option) \<times> 'w" where
  "GetHelmConfiguration new Init m namespace w =
     (let actionConfig = new;
          (err, actionConfig, w) = Init actionConfig (ConfigFlags m) namespace (HelmDriver m) w
      in case err of
           Some e \<Rightarrow> ((None, Some e), w)
         | None \<Rightarrow> ((Some actionConfig, None), w))"

section \<open>Auxiliary definitions for the proofs\<close>

text \<open>
  Whether the test \<^verbatim>\<open>if v, ok := k8sGetOk(d, key); ok\<close> of \<open>getK8sConfig\<close> succeeds.
\<close>

definition k8sPresent :: "lib \<Rightarrow> ResourceData \<Rightarrow> string \<Rightarrow> bool" where
  "k8sPresent L d key = (case k8sGetOk L d key of Inl _ \<Rightarrow> False | Inr (_, ok) \<Rightarrow> ok)"

text \<open>What \<open>ifGetOk\<close> leaves when the field is a top-level string.\<close>

definition storeIfSet :: "ResourceData \<Rightarrow> string \<Rightarrow> (string \<Rightarrow> 'a \<Rightarrow> 'a) \<Rightarrow> 'a \<Rightarrow> 'a" where
  "storeIfSet d key store x =
     (case strs d key of Some s \<Rightarrow> if s \<noteq> [] then store s x else x | None \<Rightarrow> x)"

section \<open>The layers of a field, in the words of the spec\<close>

text \<open>
  The precedence of the spec, "explicit configuration block value > environment variable
  > hard-coded default", as a function of the three layers: the explicit value if there is
  one, else the value of the environment variable if it is set, else the default.
\<close>

definition threeLayers :: "'a option \<Rightarrow> 'a option \<Rightarrow> 'a \<Rightarrow> 'a" where
  "threeLayers explicit env dflt =
     (case explicit of Some v \<Rightarrow> v | None \<Rightarrow> (case env of Some v \<Rightarrow> v | None \<Rightarrow> dflt))"

text \<open>
  An environment variable is set when its value is not the empty string; of several
  accepted names the first one that is set counts.
\<close>

definition envVar :: "lib \<Rightarrow> string \<Rightarrow> string option" where
  "envVar L n = (if Getenv L n \<noteq> [] then Some (Getenv L n) else None)"

fun firstEnvVar :: "lib \<Rightarrow> string list \<Rightarrow> string option" where
  "firstEnvVar L [] = None"
| "firstEnvVar L (n # ns) = (case envVar L n of Some v \<Rightarrow> Some v | None \<Rightarrow> firstEnvVar L ns)"

text \<open>
  The explicit layer of a nested field as the code takes it: a boolean that is set
  (\<open>False\<close> included), or a string that is set and is not empty. A string set to the empty
  string gives no explicit value.
\<close>

definition k8sExplicit :: "ResourceData \<Rightarrow> Schema \<Rightarrow> string \<Rightarrow> val option" where
  "k8sExplicit d sch key =
     (case Type sch of
        TypeString \<Rightarrow>
          (case strs d (k8sPrefix @ key) of
             Some s \<Rightarrow> if s \<noteq> [] then Some (VString s) else None
           | None \<Rightarrow> None)
      | TypeBool \<Rightarrow> map_option VBool (bools d (k8sPrefix @ key)))"

text \<open>Whether a value is not the zero value of its type, and the zero value of a type.\<close>

definition truthy :: "val \<Rightarrow> bool" where
  "truthy v = (case v of VString s \<Rightarrow> s \<noteq> [] | VBool b \<Rightarrow> b | VNil \<Rightarrow> False)"

definition zeroValue :: "ValueType \<Rightarrow> val" where
  "zeroValue T = (case T of TypeString \<Rightarrow> VString [] | TypeBool \<Rightarrow> VBool False)"

section \<open>The configuration block and the resource data\<close>


section \<open>Conditions on a configuration\<close>

text \<open>
  A nested field is present when it has an explicit value, or its default function gives a
  value that is not zero, which for the fields below means that its environment variable
  is set. This is the test \<^verbatim>\<open>if v, ok := k8sGetOk(d, key); ok\<close> in terms of the inputs.
\<close>

definition fieldPresent :: "lib \<Rightarrow> ResourceData \<Rightarrow> string \<Rightarrow> bool" where
  "fieldPresent L d key =
     (case map_of kubernetesResource key of
        None \<Rightarrow> False
      | Some sch \<Rightarrow>
          (case k8sExplicit d sch key of
             Some _ \<Rightarrow> True
           | None \<Rightarrow> (case DefaultFunc sch of None \<Rightarrow> False | Some f \<Rightarrow> truthy (f L))))"

text \<open>The eight fields of lines 309 to 347, in the order of the source.\<close>

definition credentialKeys :: "string list" where
  "credentialKeys = [''username'', ''password'', ''token'', ''insecure'', ''client_certificate'',
     ''client_key'', ''cluster_ca_certificate'', ''host'']"

text \<open>
  The kubeconfig path that line 287 resolves, and whether lines 286 to 297 complete, so that
  the run goes on to line 299: \<^verbatim>\<open>in_cluster\<close> is true; or \<^verbatim>\<open>load_config_file\<close> is set to
  false; or it is set to true, or is unset with \<^verbatim>\<open>KUBE_LOAD_CONFIG_FILE\<close> unset, and the
  path expands.
\<close>

definition resolvedConfigPath :: "lib \<Rightarrow> ResourceData \<Rightarrow> string" where
  "resolvedConfigPath L d =
     threeLayers
       (case strs d (k8sPrefix @ ''config_path'') of
          Some s \<Rightarrow> if s \<noteq> [] then Some s else None
        | None \<Rightarrow> None)
       (firstEnvVar L [''KUBE_CONFIG'', ''KUBECONFIG''])
       ''~/.kube/config''"

definition pathExpands :: "lib \<Rightarrow> ResourceData \<Rightarrow> bool" where
  "pathExpands L d = (case Expand L (resolvedConfigPath L d) of Inl _ \<Rightarrow> False | Inr _ \<Rightarrow> True)"

definition reachesCredentials :: "lib \<Rightarrow> ResourceData \<Rightarrow> bool" where
  "reachesCredentials L d =
     (if bools d (k8sPrefix @ ''in_cluster'') = Some True then True
      else (case bools d (k8sPrefix @ ''load_config_file'') of
              Some b \<Rightarrow> if b then pathExpands L d else True
            | None \<Rightarrow> Getenv L ''KUBE_LOAD_CONFIG_FILE'' = [] \<and> pathExpands L d))"

text \<open>
  The first of the eight fields that is present is \<^verbatim>\<open>insecure\<close>, and it is supplied by
  \<^verbatim>\<open>KUBE_INSECURE\<close> alone: its value is then a string.
\<close>

definition insecureFromEnvFirst :: "lib \<Rightarrow> ResourceData \<Rightarrow> bool" where
  "insecureFromEnvFirst L d =
     (\<not> fieldPresent L d ''username'' \<and> \<not> fieldPresent L d ''password'' \<and>
      \<not> fieldPresent L d ''token'' \<and> bools d (k8sPrefix @ ''insecure'') = None \<and>
      Getenv L ''KUBE_INSECURE'' \<noteq> [])"

section \<open>Further auxiliary definitions for the proofs\<close>





section \<open>Example configurations\<close>

text \<open>
  A home-directory expansion in the manner of \<^verbatim>\<open>homedir.Expand\<close>: a path that
  does not start with a tilde is returned as it is, \<^verbatim>\<open>~user/...\<close> is an error, and
  \<^verbatim>\<open>~\<close> or \<^verbatim>\<open>~/...\<close> is put under the home directory.
\<close>

definition homeExpand :: "string \<Rightarrow> string + string" where
  "homeExpand p =
     (if take 1 p \<noteq> ''~'' then Inr p
      else if 1 < length p \<and> take 1 (drop 1 p) \<noteq> ''/''
      then Inl ''cannot expand user-specific home dir''
      else Inr (''/home/user'' @ drop 1 p))"

text \<open>A process with no environment variable set.\<close>

definition noEnv :: lib where
  "noEnv =
     \<lparr>Getenv = (\<lambda>k. []),
      Expand = homeExpand,
      DataPath = (\<lambda>e. ''/home/user/.local/share/helm/'' @ e),
      ConfigPath = (\<lambda>e. ''/home/user/.config/helm/'' @ e),
      CachePath = (\<lambda>e. ''/home/user/.cache/helm/'' @ e),
      NewConfigFlags =
        \<lparr>KubeConfig = Some [], ClusterName = Some [], Context = Some [], Namespace = Some [],
         CertFile = Some [], KeyFile = Some [], CAFile = Some [], BearerToken = Some [],
         Username = None, Password = None, Insecure = Some False\<rparr>,
      MapUnicodeToLower = (\<lambda>s. s)\<rparr>"

definition setenv :: "string \<Rightarrow> string \<Rightarrow> lib \<Rightarrow> lib" where
  "setenv k v L = L\<lparr>Getenv := (Getenv L)(k := v)\<rparr>"

text \<open>A configuration with no field set, and the setting of one field.\<close>

definition noData :: ResourceData where
  "noData = \<lparr>strs = Map.empty, bools = Map.empty\<rparr>"

definition setStr :: "string \<Rightarrow> string \<Rightarrow> ResourceData \<Rightarrow> ResourceData" where
  "setStr k v d = d\<lparr>strs := (strs d)(k \<mapsto> v)\<rparr>"

definition setBool :: "string \<Rightarrow> bool \<Rightarrow> ResourceData \<Rightarrow> ResourceData" where
  "setBool k v d = d\<lparr>bools := (bools d)(k \<mapsto> v)\<rparr>"

text \<open>\<^verbatim>\<open>kubernetes { username = "alice"  password = "s3cret" }\<close>\<close>

definition userPassData :: ResourceData where
  "userPassData =
     setStr ''kubernetes.0.password'' ''s3cret'' (setStr ''kubernetes.0.username'' ''alice'' noData)"

text \<open>\<^verbatim>\<open>kubernetes { username = "alice"  config_path = "~bob/config" }\<close>\<close>

definition userBadPathData :: ResourceData where
  "userBadPathData =
     setStr ''kubernetes.0.config_path'' ''~bob/config''
       (setStr ''kubernetes.0.username'' ''alice'' noData)"

text \<open>\<^verbatim>\<open>kubernetes { config_path = "~bob/config" }\<close>\<close>

definition badPathData :: ResourceData where
  "badPathData = setStr ''kubernetes.0.config_path'' ''~bob/config'' noData"

text \<open>\<^verbatim>\<open>kubernetes { username = "" }\<close>\<close>

definition emptyUserData :: ResourceData where
  "emptyUserData = setStr ''kubernetes.0.username'' [] noData"

text \<open>
  \<^verbatim>\<open>helm_driver = "secret"  helm_namespace = "ops"  kubernetes { insecure = true }\<close>,
  the other top-level fields holding the defaults of a process with no variable set.
\<close>

definition opsData :: ResourceData where
  "opsData =
     setBool ''kubernetes.0.insecure'' True
       (setStr ''helm_namespace'' ''ops''
         (setStr ''helm_driver'' ''secret''
           (setStr ''repository_cache'' ''/home/user/.cache/helm/repository''
             (setStr ''repository_config_path'' ''/home/user/.config/helm/repositories.yaml''
               (setStr ''registry_config_path'' ''/home/user/.config/helm/registry.json''
                 (setStr ''plugins_path'' ''/home/user/.local/share/helm/plugins''
                   (setBool ''debug'' False noData)))))))"

text \<open>
  The \<open>Meta\<close> that line 208 allocates, and a \<open>Meta\<close> whose \<open>ConfigFlags\<close> is already
  allocated.
\<close>

definition freshMeta :: "ResourceData \<Rightarrow> Meta" where
  "freshMeta d = \<lparr>data = d, Settings = None, ConfigFlags = None, HelmDriver = []\<rparr>"

definition allocatedMeta :: "ResourceData \<Rightarrow> Meta" where
  "allocatedMeta d =
     \<lparr>data = d, Settings = None, ConfigFlags = Some (NewConfigFlags noEnv), HelmDriver = []\<rparr>"

text \<open>
  Two \<^verbatim>\<open>Init\<close> functions over a state that counts the calls: one that fails, and one
  that fills the configuration with the namespace and the driver it was given.
\<close>

definition failingInit ::
  "string \<times> string \<Rightarrow> ConfigFlags option \<Rightarrow> string \<Rightarrow> string \<Rightarrow> nat
     \<Rightarrow> string option \<times> (string \<times> string) \<times> nat" where
  "failingInit c flags namespace driver n = (Some ''Kubernetes cluster unreachable'', c, Suc n)"

definition fillingInit ::
  "string \<times> string \<Rightarrow> ConfigFlags option \<Rightarrow> string \<Rightarrow> string \<Rightarrow> nat
     \<Rightarrow> string option \<times> (string \<times> string) \<times> nat" where
  "fillingInit c flags namespace driver n = (None, (namespace, driver), Suc n)"




section \<open>Lemmas about the accessors and the steps of the resolution\<close>

lemma map_of_Provider_k8s: "map_of Provider (k8sPrefix @ key) = None"
  by (simp add: Provider_def k8sPrefix_def)

lemma addrToSchema_k8s: "addrToSchema (k8sPrefix @ key) = map_of kubernetesResource key"
  by (simp add: addrToSchema_def map_of_Provider_k8s)

lemma getRaw_k8s_string:
  assumes "map_of kubernetesResource key = Some sch" "Type sch = TypeString"
  shows "getRaw d (k8sPrefix @ key) =
           (case strs d (k8sPrefix @ key) of Some v \<Rightarrow> (VString v, True) | None \<Rightarrow> (VString [], False))"
  using assms by (simp add: getRaw_def addrToSchema_k8s)

lemma getRaw_k8s_bool:
  assumes "map_of kubernetesResource key = Some sch" "Type sch = TypeBool"
  shows "getRaw d (k8sPrefix @ key) =
           (case bools d (k8sPrefix @ key) of Some b \<Rightarrow> (VBool b, True) | None \<Rightarrow> (VBool False, False))"
  using assms by (simp add: getRaw_def addrToSchema_k8s)

text \<open>What \<open>k8sGetOk\<close> answers for a field that is set, and for one that is not.\<close>

lemma k8sGetOk_string_set:
  assumes "map_of kubernetesResource key = Some sch" "Type sch = TypeString"
    and "strs d (k8sPrefix @ key) = Some s" "s \<noteq> []"
  shows "k8sGetOk L d key = Inr (VString s, True)"
  using assms by (simp add: k8sGetOk_def GetOk_def getRaw_k8s_string isZero_def)

lemma k8sGetOk_bool_set:
  assumes "map_of kubernetesResource key = Some sch" "Type sch = TypeBool"
    and "bools d (k8sPrefix @ key) = Some b"
  shows "k8sGetOk L d key = Inr (VBool b, True)"
  using assms by (simp add: k8sGetOk_def GetOk_def GetOkExists_def getRaw_k8s_bool isZero_def)

lemma k8sGetOk_string_unset:
  assumes "map_of kubernetesResource key = Some sch" "Type sch = TypeString"
    and "strs d (k8sPrefix @ key) = None \<or> strs d (k8sPrefix @ key) = Some []"
    and "DefaultFunc sch = Some f"
  shows "k8sGetOk L d key =
           Inr (f L, case f L of VString v \<Rightarrow> v \<noteq> [] | VBool v \<Rightarrow> v | VNil \<Rightarrow> False)"
  using assms by (auto simp: k8sGetOk_def GetOk_def getRaw_k8s_string isZero_def Let_def split: val.splits)

lemma k8sGetOk_bool_unset:
  assumes "map_of kubernetesResource key = Some sch" "Type sch = TypeBool"
    and "bools d (k8sPrefix @ key) = None"
  shows "k8sGetOk L d key =
           (case DefaultFunc sch of
              None \<Rightarrow> Inr (VBool False, False)
            | Some f \<Rightarrow> Inr (f L, case f L of VString v \<Rightarrow> v \<noteq> [] | VBool v \<Rightarrow> v | VNil \<Rightarrow> False))"
  using assms by (auto simp: k8sGetOk_def GetOk_def GetOkExists_def getRaw_k8s_bool isZero_def Let_def split: option.splits val.splits)

text \<open>
  A string field whose default is an \<open>EnvDefaultFunc\<close> with a string always reads as a
  string, and \<open>ok\<close> says whether that string is non-empty.
\<close>

lemma k8sGetOk_string_shape:
  assumes "map_of kubernetesResource key = Some sch" "Type sch = TypeString"
    and "DefaultFunc sch = Some (EnvDefaultFunc n (VString dv))"
  shows "\<exists>s. k8sGetOk L d key = Inr (VString s, s \<noteq> [])"
proof (cases "strs d (k8sPrefix @ key) = None \<or> strs d (k8sPrefix @ key) = Some []")
  case True
  from k8sGetOk_string_unset [OF assms(1,2) True assms(3)]
  show ?thesis by (cases "Getenv L n = []") (auto simp: EnvDefaultFunc_def)
next
  case False
  then obtain s where "strs d (k8sPrefix @ key) = Some s" "s \<noteq> []" by auto
  from k8sGetOk_string_set [OF assms(1,2) this] show ?thesis using \<open>s \<noteq> []\<close> by auto
qed

lemma k8sGetOk_insecure_shape:
  "k8sGetOk L d ''insecure'' =
     (case bools d (k8sPrefix @ ''insecure'') of
        Some b \<Rightarrow> Inr (VBool b, True)
      | None \<Rightarrow> if Getenv L ''KUBE_INSECURE'' \<noteq> [] then Inr (VString (Getenv L ''KUBE_INSECURE''), True)
                else Inr (VBool False, False))"
proof -
  have sch: "map_of kubernetesResource ''insecure'' =
      Some \<lparr>Type = TypeBool, DefaultFunc = Some (EnvDefaultFunc ''KUBE_INSECURE'' (VBool False))\<rparr>"
    by (simp add: kubernetesResource_def)
  show ?thesis
  proof (cases "bools d (k8sPrefix @ ''insecure'')")
    case None
    from k8sGetOk_bool_unset [OF sch _ None, of L] show ?thesis
      using None by (simp add: EnvDefaultFunc_def)
  next
    case (Some b)
    from k8sGetOk_bool_set [OF sch _ Some, of L] show ?thesis using Some by simp
  qed
qed

lemma credential_step_string:
  assumes "ConfigFlags m = None" "k8sGetOk L d key = Inr (VString s, ok)"
  shows "ifK8sGetOk_m L d key assertString store m = (if ok then Inl NilPointerDereference else Inr m)"
  using assms by (simp add: ifK8sGetOk_m_def andThen_def assertString_def)

lemma string_shapes:
  shows "\<exists>s. k8sGetOk L d ''username'' = Inr (VString s, s \<noteq> [])"
    and "\<exists>s. k8sGetOk L d ''password'' = Inr (VString s, s \<noteq> [])"
    and "\<exists>s. k8sGetOk L d ''token'' = Inr (VString s, s \<noteq> [])"
    and "\<exists>s. k8sGetOk L d ''client_certificate'' = Inr (VString s, s \<noteq> [])"
    and "\<exists>s. k8sGetOk L d ''client_key'' = Inr (VString s, s \<noteq> [])"
    and "\<exists>s. k8sGetOk L d ''cluster_ca_certificate'' = Inr (VString s, s \<noteq> [])"
    and "\<exists>s. k8sGetOk L d ''host'' = Inr (VString s, s \<noteq> [])"
    and "\<exists>s. k8sGetOk L d ''config_context'' = Inr (VString s, s \<noteq> [])"
  by (rule k8sGetOk_string_shape, simp add: kubernetesResource_def, simp, simp)+

lemma credentials_nil:
  assumes nil: "ConfigFlags m = None"
  shows "getK8sConfig_credentials L d m =
           (if k8sPresent L d ''username'' \<or> k8sPresent L d ''password'' \<or> k8sPresent L d ''token''
            then Inl NilPointerDereference
            else if k8sPresent L d ''insecure''
            then (if Getenv L ''KUBE_INSECURE'' \<noteq> [] \<and> bools d (k8sPrefix @ ''insecure'') = None
                  then Inl InterfaceConversion else Inl NilPointerDereference)
            else if k8sPresent L d ''client_certificate'' \<or> k8sPresent L d ''client_key''
                    \<or> k8sPresent L d ''cluster_ca_certificate'' \<or> k8sPresent L d ''host''
            then Inl NilPointerDereference
            else Inr m)"
proof -
  obtain su where su: "k8sGetOk L d ''username'' = Inr (VString su, su \<noteq> [])"
    using string_shapes(1) by blast
  obtain sp where sp: "k8sGetOk L d ''password'' = Inr (VString sp, sp \<noteq> [])"
    using string_shapes(2) by blast
  obtain st where st: "k8sGetOk L d ''token'' = Inr (VString st, st \<noteq> [])"
    using string_shapes(3) by blast
  obtain sc where sc: "k8sGetOk L d ''client_certificate'' = Inr (VString sc, sc \<noteq> [])"
    using string_shapes(4) by blast
  obtain sk where sk: "k8sGetOk L d ''client_key'' = Inr (VString sk, sk \<noteq> [])"
    using string_shapes(5) by blast
  obtain sa where sa: "k8sGetOk L d ''cluster_ca_certificate'' = Inr (VString sa, sa \<noteq> [])"
    using string_shapes(6) by blast
  obtain sh where sh: "k8sGetOk L d ''host'' = Inr (VString sh, sh \<noteq> [])"
    using string_shapes(7) by blast
  note steps = credential_step_string [OF nil su] credential_step_string [OF nil sp]
    credential_step_string [OF nil st] credential_step_string [OF nil sc]
    credential_step_string [OF nil sk] credential_step_string [OF nil sa]
    credential_step_string [OF nil sh]
  have ins: "ifK8sGetOk_m L d ''insecure'' assertBool store m =
      (if k8sPresent L d ''insecure''
       then (if Getenv L ''KUBE_INSECURE'' \<noteq> [] \<and> bools d (k8sPrefix @ ''insecure'') = None
             then Inl InterfaceConversion else Inl NilPointerDereference)
       else Inr m)" for store
    using nil
    by (simp add: ifK8sGetOk_m_def andThen_def assertBool_def k8sPresent_def k8sGetOk_insecure_shape
          split: option.splits)
  show ?thesis
    by (simp add: getK8sConfig_credentials_def steps ins andThen_def k8sPresent_def su sp st sc sk sa sh)
qed


lemma k8sGet_in_cluster:
  "k8sGet L d ''in_cluster'' = Inr (VBool (bools d (k8sPrefix @ ''in_cluster'') = Some True))"
proof -
  have sch: "map_of kubernetesResource ''in_cluster'' = Some \<lparr>Type = TypeBool, DefaultFunc = None\<rparr>"
    by (simp add: kubernetesResource_def)
  show ?thesis
  proof (cases "bools d (k8sPrefix @ ''in_cluster'')")
    case None
    from k8sGetOk_bool_unset [OF sch _ None, of L] show ?thesis
      using None by (simp add: k8sGet_def)
  next
    case (Some b)
    from k8sGetOk_bool_set [OF sch _ Some, of L] show ?thesis
      using Some by (simp add: k8sGet_def)
  qed
qed

lemma k8sGet_load_config_file:
  "k8sGet L d ''load_config_file'' =
     (case bools d (k8sPrefix @ ''load_config_file'') of
        Some b \<Rightarrow> Inr (VBool b)
      | None \<Rightarrow> if Getenv L ''KUBE_LOAD_CONFIG_FILE'' \<noteq> []
                then Inr (VString (Getenv L ''KUBE_LOAD_CONFIG_FILE'')) else Inr (VBool True))"
proof -
  have sch: "map_of kubernetesResource ''load_config_file'' =
      Some \<lparr>Type = TypeBool, DefaultFunc = Some (EnvDefaultFunc ''KUBE_LOAD_CONFIG_FILE'' (VBool True))\<rparr>"
    by (simp add: kubernetesResource_def)
  show ?thesis
  proof (cases "bools d (k8sPrefix @ ''load_config_file'')")
    case None
    from k8sGetOk_bool_unset [OF sch _ None, of L] show ?thesis
      using None by (simp add: k8sGet_def EnvDefaultFunc_def)
  next
    case (Some b)
    from k8sGetOk_bool_set [OF sch _ Some, of L] show ?thesis
      using Some by (simp add: k8sGet_def)
  qed
qed

lemma andThen_Inr: "andThen (Inr x) f = f x"
  by (simp add: andThen_def)

lemma andThen_Inl: "andThen (Inl p) f = Inl p"
  by (simp add: andThen_def)

lemma top_level_string:
  assumes "map_of Provider key = Some sch" "Type sch = TypeString"
  shows "ifGetOk d key store x = Inr (storeIfSet d key store x)"
  using assms
  by (simp add: ifGetOk_def GetOk_def getRaw_def addrToSchema_def isZero_def andThen_def
        assertString_def storeIfSet_def split: option.splits)

lemma top_level_debug:
  "assertBool (Get d ''debug'') = Inr (bools d ''debug'' = Some True)"
proof -
  have "map_of Provider ''debug'' =
      Some \<lparr>Type = TypeBool, DefaultFunc = Some (EnvDefaultFunc ''HELM_DEBUG'' (VBool False))\<rparr>"
    by (simp add: Provider_def)
  then show ?thesis
    by (simp add: Get_def GetOk_def getRaw_def addrToSchema_def assertBool_def split: option.splits)
qed

lemma top_level_reads:
  "ifGetOk d ''plugins_path'' store x = Inr (storeIfSet d ''plugins_path'' store x)"
  "ifGetOk d ''registry_config_path'' store x = Inr (storeIfSet d ''registry_config_path'' store x)"
  "ifGetOk d ''repository_config_path'' store x = Inr (storeIfSet d ''repository_config_path'' store x)"
  "ifGetOk d ''repository_cache'' store x = Inr (storeIfSet d ''repository_cache'' store x)"
  "ifGetOk d ''helm_driver'' store x = Inr (storeIfSet d ''helm_driver'' store x)"
  "ifGetOk d ''helm_namespace'' store x = Inr (storeIfSet d ''helm_namespace'' store x)"
  by (rule top_level_string, simp add: Provider_def, simp)+

lemma storeIfSet_HelmDriver:
  "ConfigFlags (storeIfSet d key (\<lambda>v m. m\<lparr>HelmDriver := v\<rparr>) m) = ConfigFlags m"
  by (simp add: storeIfSet_def split: option.splits)

lemma buildSettings_reaches:
  "\<exists>m'. ConfigFlags m' = ConfigFlags m \<and>
        buildSettings L m d =
          andThen (getK8sConfig L m' d) (\<lambda>(_, m, logged). Inr (None, m, logged))"
proof -
  let ?s = "storeIfSet d ''repository_cache'' (\<lambda>v s. s\<lparr>RepositoryCache := v\<rparr>)
             (storeIfSet d ''repository_config_path'' (\<lambda>v s. s\<lparr>RepositoryConfig := v\<rparr>)
               (storeIfSet d ''registry_config_path'' (\<lambda>v s. s\<lparr>RegistryConfig := v\<rparr>)
                 (storeIfSet d ''plugins_path'' (\<lambda>v s. s\<lparr>PluginsDirectory := v\<rparr>)
                    \<lparr>Debug = (bools d ''debug'' = Some True), PluginsDirectory = [],
                     RegistryConfig = [], RepositoryConfig = [], RepositoryCache = []\<rparr>)))"
  let ?m = "(storeIfSet d ''helm_driver'' (\<lambda>v m. m\<lparr>HelmDriver := v\<rparr>) m)\<lparr>Settings := Some ?s\<rparr>"
  have "buildSettings L m d =
          andThen (getK8sConfig L ?m d) (\<lambda>(_, m, logged). Inr (None, m, logged))"
    by (simp only: buildSettings_def top_level_debug top_level_reads andThen_Inr)
  moreover have "ConfigFlags ?m = ConfigFlags m"
    by (simp add: storeIfSet_HelmDriver)
  ultimately show ?thesis by blast
qed


lemma config_context_step:
  "\<exists>cf'. ifK8sGetOk_cf L d ''config_context'' store cf = Inr cf'"
proof -
  obtain s where "k8sGetOk L d ''config_context'' = Inr (VString s, s \<noteq> [])"
    using string_shapes(8) by blast
  then show ?thesis
    by (simp add: ifK8sGetOk_cf_def andThen_def assertString_def)
qed

lemma getK8sConfig_after_path:
  assumes "getK8sConfig_path L d (NewConfigFlags L) = Inr (Inr cf)"
  shows "\<exists>cf'. getK8sConfig L m d =
           andThen (getK8sConfig_credentials L d m) (\<lambda>m. Inr (None, m\<lparr>ConfigFlags := Some cf'\<rparr>, []))"
proof -
  obtain cf1 where c1: "ifK8sGetOk_cf L d ''config_context'' (\<lambda>v c. c\<lparr>Context := Some v\<rparr>) cf = Inr cf1"
    using config_context_step by blast
  have "getK8sConfig L m d =
           andThen (getK8sConfig_credentials L d m) (\<lambda>m. Inr (None, m\<lparr>ConfigFlags :=
             Some (storeIfSet d ''helm_namespace'' (\<lambda>v c. c\<lparr>Namespace := Some v\<rparr>) cf1)\<rparr>, []))"
    by (simp add: getK8sConfig_def assms andThen_Inr c1 top_level_reads)
  then show ?thesis by blast
qed

lemma providerConfigure_reaches:
  "\<exists>m. ConfigFlags m = None \<and>
       providerConfigure L d tv =
         andThen (getK8sConfig L m d) (\<lambda>(_, m, logged). Inr ((Some m, None), logged))"
proof -
  let ?m0 = "\<lparr>data = d, Settings = None, ConfigFlags = None, HelmDriver = []\<rparr>"
  obtain m where m: "ConfigFlags m = ConfigFlags ?m0"
    "buildSettings L ?m0 d = andThen (getK8sConfig L m d) (\<lambda>(_, m, logged). Inr (None, m, logged))"
    using buildSettings_reaches by blast
  have "providerConfigure L d tv =
         andThen (getK8sConfig L m d) (\<lambda>(_, m, logged). Inr ((Some m, None), logged))"
    by (cases "getK8sConfig L m d") (auto simp: providerConfigure_def m(2) andThen_def)
  with m(1) show ?thesis by auto
qed

text \<open>The loop over \<open>drivers\<close>, and the three names under \<open>lowerASCII\<close>.\<close>

lemma rangeDrivers_iff: "rangeDrivers drivers v \<longleftrightarrow> v \<in> {''configmap'', ''secret'', ''memory''}"
  by (auto simp: drivers_def)

lemma lowerASCII_drivers:
  "map lowerASCII ''configmap'' = ''configmap''"
  "map lowerASCII ''secret'' = ''secret''"
  "map lowerASCII ''memory'' = ''memory''"
  by (simp_all add: lowerASCII_def)

section \<open>Evaluation of the examples\<close>

lemmas accessor_defs = GetOk_def GetOkExists_def Get_def getRaw_def addrToSchema_def isZero_def
  assertString_def assertBool_def andThen_def k8sPrefix_def Provider_def kubernetesResource_def
  EnvDefaultFunc_def

lemmas run_defs = providerConfigure_def buildSettings_def getK8sConfig_def getK8sConfig_path_def
  getK8sConfig_credentials_def ifK8sGetOk_m_def ifK8sGetOk_cf_def ifGetOk_def k8sGet_def k8sGetOk_def
  debug_def

lemmas example_defs = noEnv_def homeExpand_def setenv_def noData_def setStr_def setBool_def
  userPassData_def userBadPathData_def badPathData_def emptyUserData_def opsData_def
  allocatedMeta_def freshMeta_def


lemma schema_load_config_file:
  "map_of kubernetesResource ''load_config_file'' =
     Some \<lparr>Type = TypeBool, DefaultFunc = Some (EnvDefaultFunc ''KUBE_LOAD_CONFIG_FILE'' (VBool True))\<rparr>"
  by (simp add: kubernetesResource_def)


lemma schema_config_path:
  "map_of kubernetesResource ''config_path'' =
     Some \<lparr>Type = TypeString,
           DefaultFunc = Some (MultiEnvDefaultFunc [''KUBE_CONFIG'', ''KUBECONFIG'']
                                 (VString ''~/.kube/config''))\<rparr>"
  by (simp add: kubernetesResource_def)

section \<open>The resolution in terms of the inputs\<close>

lemma k8sGetOk_known:
  assumes "map_of kubernetesResource key = Some sch"
  shows "k8sGetOk L d key =
           (case k8sExplicit d sch key of
              Some v \<Rightarrow> Inr (v, True)
            | None \<Rightarrow> (case DefaultFunc sch of
                         None \<Rightarrow> Inr (zeroValue (Type sch), False)
                       | Some f \<Rightarrow> Inr (f L, truthy (f L))))"
  using assms
  by (cases "Type sch")
     (auto simp: k8sGetOk_def GetOk_def GetOkExists_def getRaw_def addrToSchema_k8s k8sExplicit_def
        zeroValue_def truthy_def isZero_def Let_def split: option.splits val.splits)

lemma k8sPresent_eq: "k8sPresent L d key = fieldPresent L d key"
proof (cases "map_of kubernetesResource key")
  case None
  then show ?thesis
    by (simp add: k8sPresent_def fieldPresent_def k8sGetOk_def GetOk_def GetOkExists_def getRaw_def
          addrToSchema_k8s)
next
  case (Some sch)
  then show ?thesis
    by (simp add: k8sPresent_def fieldPresent_def k8sGetOk_known split: option.splits)
qed



lemma k8sGetOk_config_path:
  "k8sGetOk L d ''config_path'' = Inr (VString (resolvedConfigPath L d), True)"
  unfolding k8sGetOk_known [OF schema_config_path]
  by (simp add: k8sExplicit_def resolvedConfigPath_def threeLayers_def envVar_def truthy_def Let_def
        split: option.splits)

lemma getK8sConfig_path_eq:
  "getK8sConfig_path L d cf =
     (if bools d (k8sPrefix @ ''in_cluster'') = Some True then Inr (Inr cf)
      else (case bools d (k8sPrefix @ ''load_config_file'') of
              Some b \<Rightarrow>
                if b then (case Expand L (resolvedConfigPath L d) of
                             Inl e \<Rightarrow> Inr (Inl e)
                           | Inr q \<Rightarrow> Inr (Inr (cf\<lparr>KubeConfig := Some q\<rparr>)))
                else Inr (Inr cf)
            | None \<Rightarrow>
                if Getenv L ''KUBE_LOAD_CONFIG_FILE'' \<noteq> [] then Inl InterfaceConversion
                else (case Expand L (resolvedConfigPath L d) of
                        Inl e \<Rightarrow> Inr (Inl e)
                      | Inr q \<Rightarrow> Inr (Inr (cf\<lparr>KubeConfig := Some q\<rparr>)))))"
  by (simp add: getK8sConfig_path_def k8sGet_in_cluster k8sGet_load_config_file k8sGetOk_config_path
        andThen_def assertBool_def assertString_def split: option.splits sum.splits)

lemma reachesCredentials_iff:
  "reachesCredentials L d \<longleftrightarrow> (\<exists>cf'. getK8sConfig_path L d cf = Inr (Inr cf'))"
  by (auto simp: reachesCredentials_def pathExpands_def getK8sConfig_path_eq
        split: option.splits sum.splits)

lemma not_reaches_outcome:
  assumes "\<not> reachesCredentials L d"
  shows "getK8sConfig_path L d cf = Inl InterfaceConversion \<or>
         (\<exists>e. getK8sConfig_path L d cf = Inr (Inl e))"
  using assms
  by (auto simp: reachesCredentials_def pathExpands_def getK8sConfig_path_eq
        split: option.splits sum.splits if_splits)

lemma credentials_nil_present:
  assumes nil: "ConfigFlags m = None"
    and key: "key \<in> set credentialKeys" and present: "fieldPresent L d key"
  shows "getK8sConfig_credentials L d m =
           Inl (if insecureFromEnvFirst L d then InterfaceConversion else NilPointerDereference)"
proof -
  from key present have some:
    "fieldPresent L d ''username'' \<or> fieldPresent L d ''password'' \<or> fieldPresent L d ''token'' \<or>
     fieldPresent L d ''insecure'' \<or> fieldPresent L d ''client_certificate'' \<or>
     fieldPresent L d ''client_key'' \<or> fieldPresent L d ''cluster_ca_certificate'' \<or>
     fieldPresent L d ''host''"
    by (auto simp: credentialKeys_def)
  have ins: "fieldPresent L d ''insecure'' \<longleftrightarrow>
      bools d (k8sPrefix @ ''insecure'') \<noteq> None \<or> Getenv L ''KUBE_INSECURE'' \<noteq> []"
    unfolding k8sPresent_eq [symmetric] k8sPresent_def k8sGetOk_insecure_shape
    by (simp split: option.splits)
  show ?thesis
    unfolding credentials_nil [OF nil] k8sPresent_eq insecureFromEnvFirst_def
    using some ins by auto
qed



lemma providerConfigure_present_cases:
  assumes key: "key \<in> set credentialKeys" and present: "fieldPresent L d key"
  shows "reachesCredentials L d \<Longrightarrow>
           providerConfigure L d tv =
             Inl (if insecureFromEnvFirst L d then InterfaceConversion else NilPointerDereference)"
    and "\<not> reachesCredentials L d \<Longrightarrow>
           providerConfigure L d tv = Inl InterfaceConversion \<or>
           (\<exists>m lg. providerConfigure L d tv = Inr ((Some m, None), lg) \<and> ConfigFlags m = None)"
proof -
  obtain m where nil: "ConfigFlags m = None"
    and run: "providerConfigure L d tv =
         andThen (getK8sConfig L m d) (\<lambda>(_, m, logged). Inr ((Some m, None), logged))"
    using providerConfigure_reaches by blast
  show "providerConfigure L d tv =
             Inl (if insecureFromEnvFirst L d then InterfaceConversion else NilPointerDereference)"
    if "reachesCredentials L d"
  proof -
    from that obtain cf where "getK8sConfig_path L d (NewConfigFlags L) = Inr (Inr cf)"
      using reachesCredentials_iff by blast
    then obtain cf' where "getK8sConfig L m d =
           andThen (getK8sConfig_credentials L d m) (\<lambda>m. Inr (None, m\<lparr>ConfigFlags := Some cf'\<rparr>, []))"
      using getK8sConfig_after_path by blast
    then show ?thesis
      by (simp add: run credentials_nil_present [OF nil key present] andThen_Inl)
  qed
  show "providerConfigure L d tv = Inl InterfaceConversion \<or>
           (\<exists>m lg. providerConfigure L d tv = Inr ((Some m, None), lg) \<and> ConfigFlags m = None)"
    if "\<not> reachesCredentials L d"
    using not_reaches_outcome [OF that, of "NewConfigFlags L"] nil
    by (auto simp: run getK8sConfig_def andThen_def)
qed



















lemmas presence_defs = fieldPresent_def k8sExplicit_def truthy_def reachesCredentials_def
  pathExpands_def resolvedConfigPath_def threeLayers_def envVar_def insecureFromEnvFirst_def
  credentialKeys_def


section \<open>The claims\<close>

text \<open>
  C5. For every boolean field of the nested \<^verbatim>\<open>kubernetes\<close> block, \<open>k8sGetOk\<close> tells
  an explicit \<open>False\<close> from an unset field by the existence check: \<open>GetOk\<close> alone answers
  \<open>(False, False)\<close> for the explicit \<open>False\<close>, \<open>k8sGetOk\<close> answers \<open>(False, True)\<close>,
  whatever the environment and the default function of the field are, so the default
  function is not consulted; an unset field never gives \<open>(False, True)\<close>.
\<close>

theorem k8sGetOk_explicit_false:
  assumes "map_of kubernetesResource key = Some sch" and "Type sch = TypeBool"
  shows "(bools d (k8sPrefix @ key) = Some False \<longrightarrow>
            GetOk d (k8sPrefix @ key) = (VBool False, False) \<and>
            k8sGetOk L d key = Inr (VBool False, True)) \<and>
         (bools d (k8sPrefix @ key) = None \<longrightarrow> k8sGetOk L d key \<noteq> Inr (VBool False, True))"
proof (intro conjI impI)
  assume set: "bools d (k8sPrefix @ key) = Some False"
  show "GetOk d (k8sPrefix @ key) = (VBool False, False)"
    by (simp add: GetOk_def getRaw_k8s_bool [OF assms] set isZero_def)
  show "k8sGetOk L d key = Inr (VBool False, True)"
    by (rule k8sGetOk_bool_set [OF assms set])
next
  assume unset: "bools d (k8sPrefix @ key) = None"
  show "k8sGetOk L d key \<noteq> Inr (VBool False, True)"
    unfolding k8sGetOk_bool_unset [OF assms unset]
    by (auto split: option.splits val.splits)
qed

text \<open>
  The field \<^verbatim>\<open>load_config_file\<close>, whose default is \<open>True\<close>: set to \<open>False\<close> it stays
  \<open>False\<close>; unset it reads as the default.
\<close>

theorem k8sGetOk_explicit_false_witness:
  "k8sGetOk noEnv (setBool ''kubernetes.0.load_config_file'' False noData) ''load_config_file''
     = Inr (VBool False, True) \<and>
   k8sGetOk noEnv noData ''load_config_file'' = Inr (VBool True, True)"
proof -
  have "bools (setBool ''kubernetes.0.load_config_file'' False noData)
          (k8sPrefix @ ''load_config_file'') = Some False"
    by (simp add: setBool_def k8sPrefix_def)
  with k8sGetOk_explicit_false [OF schema_load_config_file, of
      "setBool ''kubernetes.0.load_config_file'' False noData" noEnv]
  have "k8sGetOk noEnv (setBool ''kubernetes.0.load_config_file'' False noData) ''load_config_file''
     = Inr (VBool False, True)"
    by simp
  moreover have "k8sGetOk noEnv noData ''load_config_file'' = Inr (VBool True, True)"
    by (simp add: k8sGetOk_def accessor_defs example_defs)
  ultimately show ?thesis by simp
qed

text \<open>
  C9. When no explicit \<^verbatim>\<open>config_path\<close> is supplied, the kubeconfig path is the value of
  \<^verbatim>\<open>KUBE_CONFIG\<close> if that variable is present, else the value of \<^verbatim>\<open>KUBECONFIG\<close>
  if that one is present, and only if neither is present the hard-coded default
  \<^verbatim>\<open>~/.kube/config\<close>. A variable is present when its value is not the empty string.
\<close>

theorem config_path_default:
  assumes "strs d (k8sPrefix @ ''config_path'') = None"
  shows "k8sGetOk L d ''config_path'' =
           Inr (VString (if Getenv L ''KUBE_CONFIG'' \<noteq> [] then Getenv L ''KUBE_CONFIG''
                         else if Getenv L ''KUBECONFIG'' \<noteq> [] then Getenv L ''KUBECONFIG''
                         else ''~/.kube/config''), True)"
proof -
  have unset: "strs d (k8sPrefix @ ''config_path'') = None \<or>
               strs d (k8sPrefix @ ''config_path'') = Some []"
    using assms by simp
  have "Type \<lparr>Type = TypeString,
           DefaultFunc = Some (MultiEnvDefaultFunc [''KUBE_CONFIG'', ''KUBECONFIG'']
                                 (VString ''~/.kube/config''))\<rparr> = TypeString"
    by simp
  from k8sGetOk_string_unset [OF schema_config_path this unset, of _ L]
  show ?thesis by (simp add: Let_def)
qed

text \<open>The three cases: the first variable set, only the second set, none set.\<close>

theorem config_path_default_witness:
  "k8sGetOk (setenv ''KUBECONFIG'' ''/b'' (setenv ''KUBE_CONFIG'' ''/a'' noEnv)) noData ''config_path''
     = Inr (VString ''/a'', True) \<and>
   k8sGetOk (setenv ''KUBECONFIG'' ''/b'' noEnv) noData ''config_path'' = Inr (VString ''/b'', True) \<and>
   k8sGetOk noEnv noData ''config_path'' = Inr (VString ''~/.kube/config'', True)"
proof -
  have unset: "strs noData (k8sPrefix @ ''config_path'') = None"
    by (simp add: noData_def)
  show ?thesis
    using config_path_default [OF unset, of "setenv ''KUBECONFIG'' ''/b'' (setenv ''KUBE_CONFIG'' ''/a'' noEnv)"]
      config_path_default [OF unset, of "setenv ''KUBECONFIG'' ''/b'' noEnv"]
      config_path_default [OF unset, of noEnv]
    by (simp add: setenv_def noEnv_def)
qed

text \<open>
  C8. For every namespace, \<open>GetHelmConfiguration\<close> calls \<open>Init\<close> once, on the fresh
  configuration, with the stored \<open>ConfigFlags\<close>, the namespace and the stored driver. If that
  call returns an error, the result is no handle and that very error, and the state left is
  the one the single call left (nothing is retried); if it returns no error, the result is
  the configuration that the call has filled and no error.
\<close>

theorem GetHelmConfiguration_result:
  "(Init new (ConfigFlags m) namespace (HelmDriver m) w = (Some e, c, w') \<longrightarrow>
      GetHelmConfiguration new Init m namespace w = ((None, Some e), w')) \<and>
   (Init new (ConfigFlags m) namespace (HelmDriver m) w = (None, c, w') \<longrightarrow>
      GetHelmConfiguration new Init m namespace w = ((Some c, None), w'))"
  by (simp add: GetHelmConfiguration_def)

text \<open>An \<open>Init\<close> that fails and one that succeeds, each called once.\<close>

theorem GetHelmConfiguration_result_witness:
  "GetHelmConfiguration ([], []) failingInit (allocatedMeta noData) ''ops'' 0
     = ((None, Some ''Kubernetes cluster unreachable''), Suc 0) \<and>
   GetHelmConfiguration ([], []) fillingInit ((allocatedMeta noData)\<lparr>HelmDriver := ''secret''\<rparr>) ''ops'' 0
     = ((Some (''ops'', ''secret''), None), Suc 0)"
proof -
  have f: "failingInit ([], []) (ConfigFlags (allocatedMeta noData)) ''ops''
             (HelmDriver (allocatedMeta noData)) 0
           = (Some ''Kubernetes cluster unreachable'', ([], []), Suc 0)"
    by (simp add: failingInit_def)
  have g: "fillingInit ([], []) (ConfigFlags ((allocatedMeta noData)\<lparr>HelmDriver := ''secret''\<rparr>)) ''ops''
             (HelmDriver ((allocatedMeta noData)\<lparr>HelmDriver := ''secret''\<rparr>)) 0
           = (None, (''ops'', ''secret''), Suc 0)"
    by (simp add: fillingInit_def)
  from GetHelmConfiguration_result [of failingInit "([], [])" "allocatedMeta noData" "''ops''" 0
      "''Kubernetes cluster unreachable''" "([], [])" "Suc 0"] f
  have "GetHelmConfiguration ([], []) failingInit (allocatedMeta noData) ''ops'' 0
     = ((None, Some ''Kubernetes cluster unreachable''), Suc 0)"
    by blast
  moreover
  from GetHelmConfiguration_result [of fillingInit "([], [])"
      "(allocatedMeta noData)\<lparr>HelmDriver := ''secret''\<rparr>" "''ops''" 0 _ "(''ops'', ''secret'')" "Suc 0"] g
  have "GetHelmConfiguration ([], []) fillingInit ((allocatedMeta noData)\<lparr>HelmDriver := ''secret''\<rparr>) ''ops'' 0
     = ((Some (''ops'', ''secret''), None), Suc 0)"
    by blast
  ultimately show ?thesis by simp
qed

text \<open>
  C4. The validation function of \<^verbatim>\<open>helm_driver\<close> lower-cases its input and accepts it
  exactly when the result is one of \<^verbatim>\<open>configmap\<close>, \<^verbatim>\<open>secret\<close>, \<^verbatim>\<open>memory\<close>: it then
  returns no warning and no error. For every other string it returns no warning and exactly
  one error, whose message starts with the lower-cased input. For an input of ASCII bytes
  the lower-casing moves the letters \<^verbatim>\<open>A\<close> to \<^verbatim>\<open>Z\<close> only, so the input is accepted
  exactly when it equals one of the three names up to the case of its letters.
\<close>

theorem helm_driver_validation:
  "helm_driver_ValidateFunc L (VString s) key =
     (if ToLower L s \<in> {''configmap'', ''secret'', ''memory''} then Inr ([], [])
      else Inr ([], [ToLower L s @ '' must be a valid storage driver''])) \<and>
   (list_all isASCII s \<longrightarrow>
      ToLower L s = map lowerASCII s \<and>
      (ToLower L s \<in> {''configmap'', ''secret'', ''memory''} \<longleftrightarrow>
         (\<exists>t \<in> {''configmap'', ''secret'', ''memory''}. map lowerASCII s = map lowerASCII t)))"
proof -
  have run: "helm_driver_ValidateFunc L (VString s) key =
     (if ToLower L s \<in> {''configmap'', ''secret'', ''memory''} then Inr ([], [])
      else Inr ([], [ToLower L s @ '' must be a valid storage driver'']))"
    by (simp add: helm_driver_ValidateFunc_def assertString_def andThen_def rangeDrivers_iff Let_def)
  have fold: "ToLower L s = map lowerASCII s \<and>
      (ToLower L s \<in> {''configmap'', ''secret'', ''memory''} \<longleftrightarrow>
         (\<exists>t \<in> {''configmap'', ''secret'', ''memory''}. map lowerASCII s = map lowerASCII t))"
    if "list_all isASCII s"
  proof -
    have "(\<exists>t \<in> {''configmap'', ''secret'', ''memory''}. map lowerASCII s = map lowerASCII t) \<longleftrightarrow>
          map lowerASCII s = map lowerASCII ''configmap'' \<or> map lowerASCII s = map lowerASCII ''secret''
          \<or> map lowerASCII s = map lowerASCII ''memory''"
      by blast
    then show ?thesis
      using that unfolding lowerASCII_drivers by (simp only: ToLower_def if_True insert_iff empty_iff) simp
  qed
  from run fold show ?thesis by blast
qed

text \<open>A mixed-case spelling of \<^verbatim>\<open>secret\<close> is accepted; \<^verbatim>\<open>Etcd\<close> is refused.\<close>

theorem helm_driver_validation_witness:
  "list_all isASCII ''SeCrEt'' \<and>
   helm_driver_ValidateFunc noEnv (VString ''SeCrEt'') ''helm_driver'' = Inr ([], []) \<and>
   helm_driver_ValidateFunc noEnv (VString ''Etcd'') ''helm_driver''
     = Inr ([], [''etcd must be a valid storage driver''])"
proof -
  have a1: "list_all isASCII ''SeCrEt''" and a2: "list_all isASCII ''Etcd''"
    by (simp_all add: isASCII_def)
  have l1: "map lowerASCII ''SeCrEt'' = ''secret''" and l2: "map lowerASCII ''Etcd'' = ''etcd''"
    by code_simp+
  from helm_driver_validation [of noEnv "''SeCrEt''" "''helm_driver''"] a1 l1
  have "helm_driver_ValidateFunc noEnv (VString ''SeCrEt'') ''helm_driver'' = Inr ([], [])"
    by simp
  moreover
  from helm_driver_validation [of noEnv "''Etcd''" "''helm_driver''"] a2 l2
  have "helm_driver_ValidateFunc noEnv (VString ''Etcd'') ''helm_driver''
     = Inr ([], [''etcd must be a valid storage driver''])"
    by simp
  ultimately show ?thesis using a1 by simp
qed




text \<open>
  C2, as the claim states it, fails in four ways. With \<^verbatim>\<open>username\<close> present and a
  kubeconfig path that does not expand, \<open>getK8sConfig\<close> returns at line 293 and nothing is
  dereferenced. With \<^verbatim>\<open>username\<close> explicitly set to the empty string, the field is
  skipped and resolution completes. With \<^verbatim>\<open>insecure\<close> supplied by \<^verbatim>\<open>KUBE_INSECURE\<close>
  alone, the run panics on the type assertion of line 325, not on a nil pointer. With
  \<^verbatim>\<open>username\<close> present and \<^verbatim>\<open>KUBE_LOAD_CONFIG_FILE\<close> set, it panics on the type
  assertion of line 286.
\<close>

theorem credentials_present_counterexample:
  "fieldPresent noEnv userBadPathData ''username'' \<and>
   providerConfigure noEnv userBadPathData ''0.12'' =
     Inr ((Some \<lparr>data = userBadPathData,
                  Settings = Some \<lparr>Debug = False, PluginsDirectory = [], RegistryConfig = [],
                                   RepositoryConfig = [], RepositoryCache = []\<rparr>,
                  ConfigFlags = None, HelmDriver = []\<rparr>, None),
          [''[DEBUG] Error expanding path cannot expand user-specific home dir'']) \<and>
   strs emptyUserData (k8sPrefix @ ''username'') = Some [] \<and>
   providerConfigure noEnv emptyUserData ''0.12'' =
     Inr ((Some \<lparr>data = emptyUserData,
                  Settings = Some \<lparr>Debug = False, PluginsDirectory = [], RegistryConfig = [],
                                   RepositoryConfig = [], RepositoryCache = []\<rparr>,
                  ConfigFlags =
                    Some \<lparr>KubeConfig = Some ''/home/user/.kube/config'', ClusterName = Some [],
                          Context = Some [], Namespace = Some [], CertFile = Some [],
                          KeyFile = Some [], CAFile = Some [], BearerToken = Some [],
                          Username = None, Password = None, Insecure = Some False\<rparr>,
                  HelmDriver = []\<rparr>, None), []) \<and>
   fieldPresent (setenv ''KUBE_INSECURE'' ''true'' noEnv) noData ''insecure'' \<and>
   providerConfigure (setenv ''KUBE_INSECURE'' ''true'' noEnv) noData ''0.12''
     = Inl InterfaceConversion \<and>
   fieldPresent (setenv ''KUBE_LOAD_CONFIG_FILE'' ''false'' noEnv)
     (setStr ''kubernetes.0.username'' ''alice'' noData) ''username'' \<and>
   providerConfigure (setenv ''KUBE_LOAD_CONFIG_FILE'' ''false'' noEnv)
     (setStr ''kubernetes.0.username'' ''alice'' noData) ''0.12'' = Inl InterfaceConversion"
  by (simp add: run_defs accessor_defs example_defs presence_defs)

text \<open>
  C2, amended. For every configuration in which at least one of the nested fields
  \<^verbatim>\<open>username\<close>, \<^verbatim>\<open>password\<close>, \<^verbatim>\<open>token\<close>, \<^verbatim>\<open>insecure\<close>,
  \<^verbatim>\<open>client_certificate\<close>, \<^verbatim>\<open>client_key\<close>, \<^verbatim>\<open>cluster_ca_certificate\<close>, \<^verbatim>\<open>host\<close>
  is present (a string set to a value that is not empty, \<^verbatim>\<open>insecure\<close> set to true or to
  false, or the environment variable of the field set): provider configuration hits the
  nil-pointer dereference of \<^verbatim>\<open>m.ConfigFlags\<close>, which is assigned only at line 349,
  exactly when lines 286 to 297 complete (\<open>reachesCredentials\<close>) and the first present field
  is not \<^verbatim>\<open>insecure\<close> supplied by \<^verbatim>\<open>KUBE_INSECURE\<close> alone; in that last case it panics
  on the type assertion of line 325 instead. In no such configuration does provider
  configuration return a \<open>Meta\<close> whose \<open>ConfigFlags\<close> is assigned: resolution never succeeds
  with these fields stored.
\<close>

theorem credentials_present_outcome:
  assumes "key \<in> set credentialKeys" and "fieldPresent L d key"
  shows "(providerConfigure L d tv = Inl NilPointerDereference \<longleftrightarrow>
            reachesCredentials L d \<and> \<not> insecureFromEnvFirst L d) \<and>
         (reachesCredentials L d \<and> insecureFromEnvFirst L d \<longrightarrow>
            providerConfigure L d tv = Inl InterfaceConversion) \<and>
         \<not> (\<exists>m cf err logged. providerConfigure L d tv = Inr ((Some m, err), logged) \<and>
                                ConfigFlags m = Some cf)"
proof (cases "reachesCredentials L d")
  case True
  from providerConfigure_present_cases(1) [OF assms True, of tv]
  show ?thesis using True by auto
next
  case False
  from providerConfigure_present_cases(2) [OF assms False, of tv]
  show ?thesis using False by auto
qed

text \<open>
  Nil-pointer dereferences: the token supplied by \<^verbatim>\<open>KUBE_BEARER_TOKEN\<close>; username and
  password set while \<^verbatim>\<open>KUBE_INSECURE\<close> is set too; \<^verbatim>\<open>host\<close> set with \<^verbatim>\<open>in_cluster\<close>
  true and a path that would not expand. The type assertion: \<^verbatim>\<open>KUBE_INSECURE\<close> alone.
\<close>

theorem credentials_present_outcome_witness:
  "fieldPresent (setenv ''KUBE_BEARER_TOKEN'' ''abc'' noEnv) noData ''token'' \<and>
   providerConfigure (setenv ''KUBE_BEARER_TOKEN'' ''abc'' noEnv) noData ''0.12''
     = Inl NilPointerDereference \<and>
   fieldPresent (setenv ''KUBE_INSECURE'' ''true'' noEnv) userPassData ''username'' \<and>
   providerConfigure (setenv ''KUBE_INSECURE'' ''true'' noEnv) userPassData ''0.12''
     = Inl NilPointerDereference \<and>
   fieldPresent noEnv
     (setBool ''kubernetes.0.in_cluster'' True (setStr ''kubernetes.0.host'' ''https://k'' badPathData))
     ''host'' \<and>
   providerConfigure noEnv
     (setBool ''kubernetes.0.in_cluster'' True (setStr ''kubernetes.0.host'' ''https://k'' badPathData))
     ''0.12'' = Inl NilPointerDereference \<and>
   insecureFromEnvFirst (setenv ''KUBE_INSECURE'' ''true'' noEnv) noData \<and>
   providerConfigure (setenv ''KUBE_INSECURE'' ''true'' noEnv) noData ''0.12''
     = Inl InterfaceConversion"
proof -
  let ?tok = "setenv ''KUBE_BEARER_TOKEN'' ''abc'' noEnv"
  let ?ins = "setenv ''KUBE_INSECURE'' ''true'' noEnv"
  let ?d = "setBool ''kubernetes.0.in_cluster'' True
              (setStr ''kubernetes.0.host'' ''https://k'' badPathData)"
  have keys: "''token'' \<in> set credentialKeys" "''username'' \<in> set credentialKeys"
    "''host'' \<in> set credentialKeys" "''insecure'' \<in> set credentialKeys"
    by (simp_all add: credentialKeys_def)
  have p1: "fieldPresent ?tok noData ''token''"
    and r1: "reachesCredentials ?tok noData" and i1: "\<not> insecureFromEnvFirst ?tok noData"
    by (simp_all add: presence_defs example_defs kubernetesResource_def EnvDefaultFunc_def
          k8sPrefix_def)
  have p2: "fieldPresent ?ins userPassData ''username''"
    and r2: "reachesCredentials ?ins userPassData" and i2: "\<not> insecureFromEnvFirst ?ins userPassData"
    by (simp_all add: presence_defs example_defs kubernetesResource_def EnvDefaultFunc_def
          k8sPrefix_def)
  have p3: "fieldPresent noEnv ?d ''host''"
    and r3: "reachesCredentials noEnv ?d" and i3: "\<not> insecureFromEnvFirst noEnv ?d"
    by (simp_all add: presence_defs example_defs kubernetesResource_def EnvDefaultFunc_def
          k8sPrefix_def)
  have p4: "fieldPresent ?ins noData ''insecure''"
    and r4: "reachesCredentials ?ins noData" and i4: "insecureFromEnvFirst ?ins noData"
    by (simp_all add: presence_defs example_defs kubernetesResource_def EnvDefaultFunc_def
          k8sPrefix_def)
  from credentials_present_outcome [OF keys(1) p1, of "''0.12''"] r1 i1
  have 1: "providerConfigure ?tok noData ''0.12'' = Inl NilPointerDereference" by blast
  from credentials_present_outcome [OF keys(2) p2, of "''0.12''"] r2 i2
  have 2: "providerConfigure ?ins userPassData ''0.12'' = Inl NilPointerDereference" by blast
  from credentials_present_outcome [OF keys(3) p3, of "''0.12''"] r3 i3
  have 3: "providerConfigure noEnv ?d ''0.12'' = Inl NilPointerDereference" by blast
  from credentials_present_outcome [OF keys(4) p4, of "''0.12''"] r4 i4
  have 4: "providerConfigure ?ins noData ''0.12'' = Inl InterfaceConversion" by blast
  from p1 1 p2 2 p3 3 i4 4 show ?thesis by simp
qed

text \<open>
  C1. The claim: with both \<^verbatim>\<open>username\<close> and \<^verbatim>\<open>password\<close> supplied, resolution stores
  the two values in two distinct fields of the resolved \<open>ConfigFlags\<close>. The code, for
  \<^verbatim>\<open>kubernetes { username = "alice"  password = "s3cret" }\<close>: provider configuration
  panics at line 311, since \<^verbatim>\<open>m.ConfigFlags\<close> is nil there; and run on a \<open>Meta\<close> whose
  \<open>ConfigFlags\<close> is allocated, lines 309 to 347 leave the password in \<open>Username\<close>, where
  it has overwritten the username, and leave \<open>Password\<close> unset.
\<close>

theorem username_password_overwritten:
  "providerConfigure noEnv userPassData ''0.12'' = Inl NilPointerDereference \<and>
   getK8sConfig_credentials noEnv userPassData (allocatedMeta userPassData) =
     Inr \<lparr>data = userPassData, Settings = None,
          ConfigFlags =
            Some \<lparr>KubeConfig = Some [], ClusterName = Some [], Context = Some [],
                  Namespace = Some [], CertFile = Some [], KeyFile = Some [], CAFile = Some [],
                  BearerToken = Some [], Username = Some ''s3cret'', Password = None,
                  Insecure = Some False\<rparr>,
          HelmDriver = []\<rparr>"
proof -
  have "providerConfigure noEnv userPassData ''0.12'' = Inl NilPointerDereference"
    by (simp add: run_defs accessor_defs example_defs)
  moreover have "getK8sConfig_credentials noEnv userPassData (allocatedMeta userPassData) =
     Inr \<lparr>data = userPassData, Settings = None,
          ConfigFlags =
            Some \<lparr>KubeConfig = Some [], ClusterName = Some [], Context = Some [],
                  Namespace = Some [], CertFile = Some [], KeyFile = Some [], CAFile = Some [],
                  BearerToken = Some [], Username = Some ''s3cret'', Password = None,
                  Insecure = Some False\<rparr>,
          HelmDriver = []\<rparr>"
    by (simp add: run_defs accessor_defs example_defs)
  ultimately show ?thesis by simp
qed

text \<open>
  C3. The claim: when the kubeconfig path is consulted and its expansion fails, a debug
  line is logged and \<open>providerConfigure\<close> returns the error. The code, for
  \<^verbatim>\<open>kubernetes { config_path = "~bob/config" }\<close>: \<open>getK8sConfig\<close> logs the debug line
  and returns the error, \<open>buildSettings\<close> drops it at line 245, and \<open>providerConfigure\<close>
  returns \<^verbatim>\<open>(m, nil)\<close> with \<open>ConfigFlags\<close> nil.
\<close>

theorem expansion_error_dropped:
  "getK8sConfig noEnv (freshMeta badPathData) badPathData =
     Inr (Some ''cannot expand user-specific home dir'', freshMeta badPathData,
          [''[DEBUG] Error expanding path cannot expand user-specific home dir'']) \<and>
   providerConfigure noEnv badPathData ''0.12'' =
     Inr ((Some \<lparr>data = badPathData,
                  Settings = Some \<lparr>Debug = False, PluginsDirectory = [], RegistryConfig = [],
                                   RepositoryConfig = [], RepositoryCache = []\<rparr>,
                  ConfigFlags = None, HelmDriver = []\<rparr>, None),
          [''[DEBUG] Error expanding path cannot expand user-specific home dir''])"
  by (simp add: run_defs accessor_defs example_defs)

text \<open>
  C7. The claim: with \<^verbatim>\<open>helm_driver = "secret"\<close>, \<^verbatim>\<open>helm_namespace = "ops"\<close>, the nested
  \<^verbatim>\<open>insecure = true\<close> and no environment variable, resolution yields the driver
  \<^verbatim>\<open>secret\<close>, the namespace \<^verbatim>\<open>ops\<close> and \<open>Insecure\<close> true, and \<open>GetHelmConfiguration\<close>
  then succeeds. The code: provider configuration panics at line 326, where the value of
  \<^verbatim>\<open>insecure\<close> is written through the nil \<^verbatim>\<open>m.ConfigFlags\<close>; no \<open>Meta\<close> is returned.
\<close>

theorem ops_scenario_panics:
  "k8sGetOk noEnv opsData ''insecure'' = Inr (VBool True, True) \<and>
   providerConfigure noEnv opsData ''0.12'' = Inl NilPointerDereference"
  by (simp add: run_defs accessor_defs example_defs)

text \<open>Whatever the configuration, \<open>providerConfigure\<close> never returns an error.\<close>

lemma providerConfigure_no_error:
  "providerConfigure L d tv \<noteq> Inr ((mo, Some e), logged)"
proof -
  obtain m where "providerConfigure L d tv =
         andThen (getK8sConfig L m d) (\<lambda>(_, m, logged). Inr ((Some m, None), logged))"
    using providerConfigure_reaches by blast
  then show ?thesis
    by (auto simp: andThen_def split: sum.splits)
qed

end
